theory Spec2Isabelle
  imports Main
begin

section \<open>Values, errors and the private variables of a model instance\<close>

text \<open>
  The business objects are JavaScript closures: every instance owns the private variables
  \<^verbatim>\<open>state\<close>, \<^verbatim>\<open>isDirty\<close>, \<^verbatim>\<open>store\<close>, \<^verbatim>\<open>brokenRules\<close>, \<^verbatim>\<open>isValidated\<close> (and, in the root model,
  \<^verbatim>\<open>connection\<close>). A function of the source that mutates them becomes a function from the
  variables to the variables; a function that can throw returns the thrown error next to
  the variables as they are at the moment of the throw, because a JavaScript exception
  does not undo assignments made before it.
\<close>

datatype jsval = JUndefined | JNull | JBool bool | JNum int | JStr string | JFunction string

datatype model_state = Pristine | Created | Changed | MarkedForRemoval | Removed

datatype portal_action = Create | Fetch | Insert | Update | Remove

datatype error =
    ModelError string string string
  | TypeError string
  | ReferenceError string
  | Failure string
  | DataPortalError string string portal_action error

datatype 'a outcome = Returned 'a | Thrown error

datatype severity = Success | Information | Warning | Error

record broken_rule =
  ruleName :: string
  propertyName :: string
  message :: string
  severity :: severity

record property =
  name :: string
  isOnDto :: bool
  isOnCto :: bool
  isReadOnly :: bool

record model =
  modelName :: string
  properties :: "property list"
  state :: "model_state option"
  isDirty :: bool
  store :: "string \<rightharpoonup> jsval"
  brokenRules :: "broken_rule list"
  isValidated :: bool
  connection :: "nat option"

text \<open>
  The constructor: \<^verbatim>\<open>state = null\<close>, \<^verbatim>\<open>isDirty = false\<close>, \<^verbatim>\<open>isValidated = false\<close>, an empty
  broken rule list, no connection, and \<^verbatim>\<open>store.initValue(property)\<close> for every property.
  (\<^verbatim>\<open>connection\<close> exists in the root model only; a child object never assigns it.)
\<close>

definition new_model :: "string \<Rightarrow> property list \<Rightarrow> model" where
  "new_model n ps =
     \<lparr> modelName = n, properties = ps, state = None, isDirty = False,
       store = map_of (map (\<lambda>p. (name p, JNull)) ps), brokenRules = [], isValidated = False,
       connection = None \<rparr>"

text \<open>
  An object graph as the state machine sees it: \<open>chain\<close> is an object together with its
  ancestors (the \<^verbatim>\<open>parent\<close> reference of a child object, up to the root model), \<open>obj\<close> is a
  child object together with its own child objects (the values of
  \<^verbatim>\<open>properties.children()\<close>).
\<close>

datatype chain = Root model | Child model chain

datatype obj = Obj model "obj list"

fun self_of :: "chain \<Rightarrow> model" where
  "self_of (Root m) = m"
| "self_of (Child m par) = m"

fun parent_of :: "chain \<Rightarrow> chain" where
  "parent_of (Child m par) = par"
| "parent_of (Root m) = Root m"

section \<open>Mark object state\<close>

text \<open>\<^verbatim>\<open>MODEL_STATE.getName\<close>.\<close>

fun getName :: "model_state \<Rightarrow> string" where
  "getName Pristine = ''pristine''"
| "getName Created = ''created''"
| "getName Changed = ''changed''"
| "getName MarkedForRemoval = ''markedForRemoval''"
| "getName Removed = ''removed''"

text \<open>
  \<^verbatim>\<open>function illegal(newState) { throw new ModelError('transition',
     (state == null ? 'NULL' : MODEL_STATE.getName(state)), MODEL_STATE.getName(newState)); }\<close>
\<close>

definition illegal :: "model \<Rightarrow> model_state \<Rightarrow> error" where
  "illegal m newState =
     ModelError ''transition''
       (case state m of None \<Rightarrow> ''NULL'' | Some s \<Rightarrow> getName s) (getName newState)"

text \<open>
  \<^verbatim>\<open>markAsPristine\<close> and \<^verbatim>\<open>markAsRemoved\<close> have the same body in the root model and in the
  child object.
\<close>

definition markAsPristine :: "model \<Rightarrow> error option \<times> model" where
  "markAsPristine m =
     (if state m = Some MarkedForRemoval \<or> state m = Some Removed then
        (Some (illegal m Pristine), m)
      else if state m \<noteq> Some Pristine then
        (None, m\<lparr>state := Some Pristine, isDirty := False\<rparr>)
      else (None, m))"

definition markAsRemoved :: "model \<Rightarrow> error option \<times> model" where
  "markAsRemoved m =
     (if state m = Some Created \<or> state m = Some MarkedForRemoval then
        (None, m\<lparr>state := Some Removed, isDirty := False\<rparr>)
      else if state m \<noteq> Some Removed then
        (Some (illegal m Removed), m)
      else (None, m))"

subsection \<open>Root model (editable-root-model-sync.js)\<close>

definition root_markAsCreated :: "model \<Rightarrow> error option \<times> model" where
  "root_markAsCreated m =
     (if state m = None then
        (None, m\<lparr>state := Some Created, isDirty := True\<rparr>)
      else if state m \<noteq> Some Created then
        (Some (illegal m Created), m)
      else (None, m))"

definition root_markAsChanged :: "bool \<Rightarrow> model \<Rightarrow> error option \<times> model" where
  "root_markAsChanged itself m =
     (if state m = Some Pristine then
        (None, m\<lparr>state := Some Changed, isDirty := (isDirty m \<or> itself), isValidated := False\<rparr>)
      else if state m = Some Removed then
        (Some (illegal m Changed), m)
      else (None, m))"

subsection \<open>Child object (EditableChildObject)\<close>

text \<open>
  \<^verbatim>\<open>propagateChange\<close> calls \<^verbatim>\<open>parent.childHasChanged()\<close>, which is \<^verbatim>\<open>markAsChanged(false)\<close> of
  the parent. In \<open>child_markAsChanged\<close> the argument \<open>up\<close> is what that call does to the
  ancestors \<open>par\<close>; it is looked at only in the branches that call \<^verbatim>\<open>propagateChange\<close>.
  The assignment \<^verbatim>\<open>isValidated = false\<close> comes after the call, so it is skipped when the
  call throws.
\<close>

definition child_markAsChanged ::
  "bool \<Rightarrow> model \<Rightarrow> chain \<Rightarrow> error option \<times> chain \<Rightarrow> error option \<times> model \<times> chain" where
  "child_markAsChanged itself m par up =
     (if state m = Some Pristine then
        (let m1 = m\<lparr>state := Some Changed, isDirty := (isDirty m \<or> itself)\<rparr> in
         case up of
           (Some e, par') \<Rightarrow> (Some e, m1, par')
         | (None, par') \<Rightarrow> (None, m1\<lparr>isValidated := False\<rparr>, par'))
      else if state m = Some Created then
        (let m1 = m\<lparr>isDirty := (isDirty m \<or> itself)\<rparr> in
         case up of
           (Some e, par') \<Rightarrow> (Some e, m1, par')
         | (None, par') \<Rightarrow> (None, m1\<lparr>isValidated := False\<rparr>, par'))
      else if state m = Some Removed then
        (Some (illegal m Changed), m, par)
      else (None, m, par))"

fun childHasChanged :: "chain \<Rightarrow> error option \<times> chain" where
  "childHasChanged (Root p) =
     (case root_markAsChanged False p of (e, p') \<Rightarrow> (e, Root p'))"
| "childHasChanged (Child p par) =
     (case child_markAsChanged False p par (childHasChanged par) of
        (e, p', par') \<Rightarrow> (e, Child p' par'))"

definition markAsChanged :: "bool \<Rightarrow> chain \<Rightarrow> error option \<times> chain" where
  "markAsChanged itself c =
     (case c of
        Root m \<Rightarrow> (case root_markAsChanged itself m of (e, m') \<Rightarrow> (e, Root m'))
      | Child m par \<Rightarrow>
          (case child_markAsChanged itself m par (childHasChanged par) of
             (e, m', par') \<Rightarrow> (e, Child m' par')))"

definition child_markAsCreated :: "model \<Rightarrow> chain \<Rightarrow> error option \<times> model \<times> chain" where
  "child_markAsCreated m par =
     (if state m = None then
        (case childHasChanged par of
           (e, par') \<Rightarrow> (e, m\<lparr>state := Some Created, isDirty := True\<rparr>, par'))
      else if state m \<noteq> Some Created then
        (Some (illegal m Created), m, par)
      else (None, m, par))"

definition markAsCreated :: "chain \<Rightarrow> error option \<times> chain" where
  "markAsCreated c =
     (case c of
        Root m \<Rightarrow> (case root_markAsCreated m of (e, m') \<Rightarrow> (e, Root m'))
      | Child m par \<Rightarrow>
          (case child_markAsCreated m par of (e, m', par') \<Rightarrow> (e, Child m' par')))"

text \<open>
  \<^verbatim>\<open>markForRemoval\<close>: in the states pristine and changed the object is marked, then
  \<^verbatim>\<open>propagateRemoval\<close> calls \<^verbatim>\<open>child.remove()\<close> on every child object (\<^verbatim>\<open>forEach\<close>, which a
  throwing child cuts short), then (child object only) \<^verbatim>\<open>propagateChange\<close> notifies the
  parent. \<^verbatim>\<open>remove()\<close> of a child is its \<^verbatim>\<open>markForRemoval\<close>, whose own \<^verbatim>\<open>propagateChange\<close> calls
  back into the object that is being marked.
\<close>

fun markForRemoval :: "chain \<Rightarrow> obj list \<Rightarrow> error option \<times> chain \<times> obj list"
and propagateRemoval :: "chain \<Rightarrow> obj list \<Rightarrow> error option \<times> chain \<times> obj list" where
  "markForRemoval (Root m) kids =
     (if state m = Some Pristine \<or> state m = Some Changed then
        propagateRemoval (Root (m\<lparr>state := Some MarkedForRemoval, isDirty := True\<rparr>)) kids
      else if state m = Some Created then
        (None, Root (m\<lparr>state := Some Removed\<rparr>), kids)
      else if state m \<noteq> Some MarkedForRemoval then
        (Some (illegal m MarkedForRemoval), Root m, kids)
      else (None, Root m, kids))"
| "markForRemoval (Child m par) kids =
     (if state m = Some Pristine \<or> state m = Some Changed then
        (case propagateRemoval (Child (m\<lparr>state := Some MarkedForRemoval, isDirty := True\<rparr>) par) kids of
           (Some e, c, kids') \<Rightarrow> (Some e, c, kids')
         | (None, c, kids') \<Rightarrow>
             (case childHasChanged (parent_of c) of
                (e, par') \<Rightarrow> (e, Child (self_of c) par', kids')))
      else if state m = Some Created then
        (None, Child (m\<lparr>state := Some Removed\<rparr>) par, kids)
      else if state m \<noteq> Some MarkedForRemoval then
        (Some (illegal m MarkedForRemoval), Child m par, kids)
      else (None, Child m par, kids))"
| "propagateRemoval c [] = (None, c, [])"
| "propagateRemoval c (Obj km kk # ks) =
     (case markForRemoval (Child km c) kk of
        (Some e, kc, kk') \<Rightarrow> (Some e, parent_of kc, Obj (self_of kc) kk' # ks)
      | (None, kc, kk') \<Rightarrow>
          (case propagateRemoval (parent_of kc) ks of
             (e, c', ks') \<Rightarrow> (e, c', Obj (self_of kc) kk' # ks')))"

text \<open>\<^verbatim>\<open>this.remove = function() { markForRemoval(); }\<close>\<close>

definition remove :: "chain \<Rightarrow> obj list \<Rightarrow> error option \<times> chain \<times> obj list" where
  "remove c kids = markForRemoval c kids"

subsection \<open>Show object state\<close>

definition get_isNew :: "model \<Rightarrow> bool" where
  "get_isNew m = (state m = Some Created)"

definition get_isDirty :: "model \<Rightarrow> bool" where
  "get_isDirty m =
     (state m = Some Created \<or> state m = Some Changed \<or> state m = Some MarkedForRemoval)"


definition get_isDeleted :: "model \<Rightarrow> bool" where
  "get_isDeleted m = (state m = Some MarkedForRemoval)"

section \<open>The transition table\<close>

text \<open>
  The table of the specification (section 3), which is the table in the comment above the
  mark functions: row = current state (\<open>None\<close> is the unset state, \<^verbatim>\<open>NULL\<close>), column = target
  state. \<open>Allowed\<close> is \<^verbatim>\<open>+\<close>, \<open>NoOp\<close> is \<^verbatim>\<open>o\<close>, \<open>Forbidden\<close> is \<^verbatim>\<open>-\<close> and \<^verbatim>\<open>N\<close> (both throw),
  \<open>ShortCircuit\<close> is the cell created/markedForRemoval, which goes to removed.
\<close>

datatype cell = Allowed | NoOp | Forbidden | ShortCircuit

fun transition_table :: "model_state option \<Rightarrow> model_state \<Rightarrow> cell" where
  "transition_table None Pristine = Allowed"
| "transition_table None Created = Allowed"
| "transition_table None _ = Forbidden"
| "transition_table (Some Pristine) Pristine = NoOp"
| "transition_table (Some Pristine) Created = Forbidden"
| "transition_table (Some Pristine) Changed = Allowed"
| "transition_table (Some Pristine) MarkedForRemoval = Allowed"
| "transition_table (Some Pristine) Removed = Forbidden"
| "transition_table (Some Created) Pristine = Allowed"
| "transition_table (Some Created) Created = NoOp"
| "transition_table (Some Created) Changed = NoOp"
| "transition_table (Some Created) MarkedForRemoval = ShortCircuit"
| "transition_table (Some Created) Removed = Allowed"
| "transition_table (Some Changed) Pristine = Allowed"
| "transition_table (Some Changed) Created = Forbidden"
| "transition_table (Some Changed) Changed = NoOp"
| "transition_table (Some Changed) MarkedForRemoval = Allowed"
| "transition_table (Some Changed) Removed = Forbidden"
| "transition_table (Some MarkedForRemoval) Pristine = Forbidden"
| "transition_table (Some MarkedForRemoval) Created = Forbidden"
| "transition_table (Some MarkedForRemoval) Changed = NoOp"
| "transition_table (Some MarkedForRemoval) MarkedForRemoval = NoOp"
| "transition_table (Some MarkedForRemoval) Removed = Allowed"
| "transition_table (Some Removed) Removed = NoOp"
| "transition_table (Some Removed) _ = Forbidden"

text \<open>The mark-operation that corresponds to a target state.\<close>

definition with_self :: "chain \<Rightarrow> model \<Rightarrow> chain" where
  "with_self c m = (case c of Root _ \<Rightarrow> Root m | Child _ par \<Rightarrow> Child m par)"

definition mark ::
  "model_state \<Rightarrow> bool \<Rightarrow> chain \<Rightarrow> obj list \<Rightarrow> error option \<times> chain \<times> obj list" where
  "mark to itself c kids =
     (case to of
        Pristine \<Rightarrow> (case markAsPristine (self_of c) of (e, m') \<Rightarrow> (e, with_self c m', kids))
      | Created \<Rightarrow> (case markAsCreated c of (e, c') \<Rightarrow> (e, c', kids))
      | Changed \<Rightarrow> (case markAsChanged itself c of (e, c') \<Rightarrow> (e, c', kids))
      | MarkedForRemoval \<Rightarrow> markForRemoval c kids
      | Removed \<Rightarrow> (case markAsRemoved (self_of c) of (e, m') \<Rightarrow> (e, with_self c m', kids)))"

section \<open>Collaborators that are not among the sources\<close>

text \<open>
  Modelled from the spec: \<^verbatim>\<open>BrokenRuleList.isValid\<close> (rules/broken-rule-list.js is missing).
  The specification: a property is valid iff it has no recorded BrokenRule of severity
  error; a valid object may have broken rules of the other severities.
\<close>

definition BrokenRuleList_isValid :: "broken_rule list \<Rightarrow> bool" where
  "BrokenRuleList_isValid brs = list_all (\<lambda>r. severity r \<noteq> Error) brs"

text \<open>
  \<^verbatim>\<open>RuleManager.validate(property, context)\<close> (rules/rule-manager.js is missing) is a parameter:
  for a model type, a property and the property values it yields the broken rules that
  the validation rules of that property add to the list of the context.
\<close>

type_synonym validator = "string \<Rightarrow> property \<Rightarrow> (string \<rightharpoonup> jsval) \<Rightarrow> broken_rule list"

text \<open>
  Modelled from the spec: \<^verbatim>\<open>RuleManager.hasPermission\<close> (rules/rule-manager.js is missing).
  The specification: authorization rules are evaluated per (action, targetName) pair;
  \<^verbatim>\<open>hasPermission\<close> returns true iff no enabled rule denies the action; a denial records a
  BrokenRule (severity error) and does not throw. \<open>denies\<close> is the result of executing
  the rule for the current principal.
\<close>

datatype authorization_action =
  ReadProperty | WriteProperty | CreateObject | FetchObject | UpdateObject | RemoveObject
  | ExecuteMethod

record authorization_rule =
  rule_name :: string
  rule_action :: authorization_action
  rule_target :: string
  rule_message :: string
  enabled :: bool
  denies :: bool

definition hasPermission ::
  "authorization_rule list \<Rightarrow> authorization_action \<Rightarrow> string \<Rightarrow> broken_rule list
     \<Rightarrow> bool \<times> broken_rule list" where
  "hasPermission rules a targetName brs =
     (case filter (\<lambda>r. enabled r \<and> rule_action r = a \<and> rule_target r = targetName \<and> denies r) rules of
        [] \<Rightarrow> (True, brs)
      | r # _ \<Rightarrow>
          (False, brs @ [\<lparr> ruleName = rule_name r, propertyName = targetName,
                            message = rule_message r, severity = Error \<rparr>]))"

text \<open>
  Modelled from the spec: \<^verbatim>\<open>DataStore\<close> (shared/data-store.js is missing). The specification:
  a mapping property to value; \<^verbatim>\<open>setValue(prop, value)\<close> returns true only if the value
  actually differs.
\<close>

definition DataStore_getValue :: "(string \<rightharpoonup> jsval) \<Rightarrow> property \<Rightarrow> jsval" where
  "DataStore_getValue st p = (case st (name p) of Some v \<Rightarrow> v | None \<Rightarrow> JUndefined)"

definition DataStore_setValue ::
  "(string \<rightharpoonup> jsval) \<Rightarrow> property \<Rightarrow> jsval \<Rightarrow> bool \<times> (string \<rightharpoonup> jsval)" where
  "DataStore_setValue st p v =
     (if DataStore_getValue st p \<noteq> v then (True, st(name p \<mapsto> v)) else (False, st))"

section \<open>Permissions and property reads\<close>

text \<open>
  \<^verbatim>\<open>getAuthorizationContext(action, targetName)\<close> passes \<^verbatim>\<open>targetName || ''\<close> and the
  \<^verbatim>\<open>brokenRules\<close> of the instance; \<^verbatim>\<open>canBeRead\<close>, \<^verbatim>\<open>canDo\<close> are \<^verbatim>\<open>rules.hasPermission\<close> of it.
\<close>

definition canBeRead :: "authorization_rule list \<Rightarrow> property \<Rightarrow> model \<Rightarrow> bool \<times> model" where
  "canBeRead rules p m =
     (case hasPermission rules ReadProperty (name p) (brokenRules m) of
        (b, brs) \<Rightarrow> (b, m\<lparr>brokenRules := brs\<rparr>))"

definition canDo :: "authorization_rule list \<Rightarrow> authorization_action \<Rightarrow> model \<Rightarrow> bool \<times> model" where
  "canDo rules a m =
     (case hasPermission rules a '''' (brokenRules m) of
        (b, brs) \<Rightarrow> (b, m\<lparr>brokenRules := brs\<rparr>))"

text \<open>
  \<^verbatim>\<open>function readPropertyValue(property) { if (canBeRead(property))
     return store.getValue(property); else return null; }\<close>
  The same body in editable-root-model-sync.js and in read-only-child-model.js.
\<close>

definition readPropertyValue ::
  "authorization_rule list \<Rightarrow> property \<Rightarrow> model \<Rightarrow> jsval outcome \<times> model" where
  "readPropertyValue rules p m =
     (case canBeRead rules p m of
        (True, m') \<Rightarrow> (Returned (DataStore_getValue (store m') p), m')
      | (False, m') \<Rightarrow> (Returned JNull, m'))"

text \<open>
  The public accessors made by \<^verbatim>\<open>Object.defineProperty(self, property.name, ...)\<close>. In the
  read-only child model the getter is \<^verbatim>\<open>readPropertyValue(property)\<close>. In the editable root
  model it is \<^verbatim>\<open>property.getter ? property.getter(getPropertyContext(property)) :
  readPropertyValue(property)\<close>; the custom getter is a function of the instance.
\<close>

definition ReadOnlyChildModel_get ::
  "authorization_rule list \<Rightarrow> property \<Rightarrow> model \<Rightarrow> jsval outcome \<times> model" where
  "ReadOnlyChildModel_get rules p m = readPropertyValue rules p m"

definition EditableRootModelSync_get ::
  "authorization_rule list \<Rightarrow> (model \<Rightarrow> jsval outcome \<times> model) option \<Rightarrow> property \<Rightarrow> model
     \<Rightarrow> jsval outcome \<times> model" where
  "EditableRootModelSync_get rules getter p m =
     (case getter of Some g \<Rightarrow> g m | None \<Rightarrow> readPropertyValue rules p m)"

text \<open>
  In the read-only root object (read-only-root-object-sync.js) and in the editable child
  object the getter of the accessor is \<^verbatim>\<open>readPropertyValue(property)\<close>, and that function
  calls the custom getter itself, after the permission check:
  \<^verbatim>\<open>if (canBeRead(property)) { if (property.getter)
     return property.getter(getPropertyContext(property));
     else return store.getValue(property); } else return null;\<close>
\<close>

definition ReadOnlyRootObjectSync_get ::
  "authorization_rule list \<Rightarrow> (model \<Rightarrow> jsval outcome \<times> model) option \<Rightarrow> property \<Rightarrow> model
     \<Rightarrow> jsval outcome \<times> model" where
  "ReadOnlyRootObjectSync_get rules getter p m =
     (case canBeRead rules p m of
        (True, m') \<Rightarrow>
          (case getter of
             Some g \<Rightarrow> g m'
           | None \<Rightarrow> (Returned (DataStore_getValue (store m') p), m'))
      | (False, m') \<Rightarrow> (Returned JNull, m'))"

section \<open>Validation\<close>

text \<open>
  \<^verbatim>\<open>brokenRules.clear(); properties.forEach(function(property) { validate(property); });\<close>
\<close>

definition validate_properties :: "validator \<Rightarrow> model \<Rightarrow> model" where
  "validate_properties V m =
     m\<lparr>brokenRules := foldl (\<lambda>brs p. brs @ V (modelName m) p (store m)) [] (properties m)\<rparr>"

subsection \<open>Root model (editable-root-model-sync.js)\<close>

definition root_checkRules :: "validator \<Rightarrow> model \<Rightarrow> model" where
  "root_checkRules V m = (validate_properties V m)\<lparr>isValidated := True\<rparr>"

text \<open>
  \<^verbatim>\<open>this.isValid = function() { if (!isValidated) this.checkRules();
     return brokenRules.isValid(); };\<close>
\<close>

definition root_isValid :: "validator \<Rightarrow> model \<Rightarrow> bool \<times> model" where
  "root_isValid V m =
     (case (if \<not> isValidated m then root_checkRules V m else m) of
        m1 \<Rightarrow> (BrokenRuleList_isValid (brokenRules m1), m1))"

subsection \<open>Child object (EditableChildObject)\<close>

text \<open>
  \<^verbatim>\<open>checkRules\<close> also runs \<^verbatim>\<open>checkChildRules()\<close> (\<^verbatim>\<open>child.checkRules()\<close> for every child), and
  \<^verbatim>\<open>isValid\<close> returns \<^verbatim>\<open>brokenRules.isValid() && childrenAreValid()\<close>, where
  \<^verbatim>\<open>childrenAreValid\<close> is \<^verbatim>\<open>properties.children().every(child.isValid())\<close>: both \<^verbatim>\<open>&&\<close> and
  \<^verbatim>\<open>every\<close> stop at the first false.
\<close>

fun checkRules :: "validator \<Rightarrow> obj \<Rightarrow> obj" where
  "checkRules V (Obj m kids) =
     (case validate_properties V m of m1 \<Rightarrow>
        case map (checkRules V) kids of kids1 \<Rightarrow>
          Obj (m1\<lparr>isValidated := True\<rparr>) kids1)"

function isValid :: "validator \<Rightarrow> obj \<Rightarrow> bool \<times> obj"
and childrenAreValid :: "validator \<Rightarrow> obj list \<Rightarrow> bool \<times> obj list" where
  "isValid V (Obj m kids) =
     (case (if \<not> isValidated m then checkRules V (Obj m kids) else Obj m kids) of
        Obj m1 kids1 \<Rightarrow>
          if BrokenRuleList_isValid (brokenRules m1) then
            (case childrenAreValid V kids1 of (b, kids2) \<Rightarrow> (b, Obj m1 kids2))
          else (False, Obj m1 kids1))"
| "childrenAreValid V [] = (True, [])"
| "childrenAreValid V (k # ks) =
     (case isValid V k of
        (True, k') \<Rightarrow> (case childrenAreValid V ks of (b, ks') \<Rightarrow> (b, k' # ks'))
      | (False, k') \<Rightarrow> (False, k' # ks))"
  by pat_completeness auto
termination
proof -
  have sz: "size (checkRules V k) = size k" for V k
    by (induction V k rule: checkRules.induct)
       (simp add: size_list_conv_sum_list o_def cong: map_cong)
  have step: "size_list size x2 < Suc (size_list size kids)"
    if "(if \<not> isValidated m then checkRules V (Obj m kids) else Obj m kids) = Obj x1 x2"
    for V m kids x1 x2
  proof -
    have "size (Obj x1 x2) = size (Obj m kids)"
      using that sz[of V "Obj m kids"] by (auto split: if_splits)
    then show ?thesis by simp
  qed
  show ?thesis
    by (relation "measure (\<lambda>x. case x of Inl (V, k) \<Rightarrow> size k
                                     | Inr (V, ks) \<Rightarrow> size_list size ks)")
       (auto simp: step)
qed

text \<open>The broken rules recorded in an object and, recursively, in its child objects.\<close>

fun all_rules :: "obj \<Rightarrow> broken_rule list" where
  "all_rules (Obj m kids) = brokenRules m @ concat (map all_rules kids)"

section \<open>Data portal of the root model (editable-root-model-sync.js)\<close>

text \<open>
  The external collaborators of one instance: the rule manager, the connection manager,
  the data access object and the extension hooks. Each call that can throw yields
  \<open>Inl\<close> of the error. \<open>child_save\<close> is \<^verbatim>\<open>child.save(connection)\<close> of a child of the
  synchronous root model (that child model is not among the sources). \<open>getKey\<close> is
  \<^verbatim>\<open>properties.getKey(getPropertyValue)\<close>. A run returns the calls it has made to the
  event emitter, the connection manager and the data access object, in order; the
  events of a child are kept apart under \<open>InChild\<close>. Event listeners are taken to return.
\<close>

datatype event =
    BeginTransaction
  | CommitTransaction
  | RollbackTransaction
  | Emit string portal_action "error option"
  | DaoCall string "error option"
  | Extension string
  | InChild event

record env =
  validate :: validator
  authorization :: "authorization_rule list"
  beginTransaction :: "error + nat"
  commitTransaction :: "nat option \<Rightarrow> error + nat option"
  rollbackTransaction :: "nat option \<Rightarrow> error + nat option"
  dao_insert :: "nat \<Rightarrow> (string \<rightharpoonup> jsval) \<Rightarrow> error + (string \<rightharpoonup> jsval)"
  dao_update :: "nat \<Rightarrow> (string \<rightharpoonup> jsval) \<Rightarrow> error + (string \<rightharpoonup> jsval)"
  dao_remove :: "nat \<Rightarrow> (string \<rightharpoonup> jsval) \<Rightarrow> error option"
  dataInsert :: "(nat \<Rightarrow> model \<Rightarrow> error option \<times> model) option"
  dataUpdate :: "(nat \<Rightarrow> model \<Rightarrow> error option \<times> model) option"
  dataRemove :: "(nat \<Rightarrow> model \<Rightarrow> error option \<times> model) option"
  ext_toDto :: "(model \<Rightarrow> error + (string \<rightharpoonup> jsval)) option"
  ext_fromDto :: "((string \<rightharpoonup> jsval) \<Rightarrow> model \<Rightarrow> error option \<times> model) option"
  getKey :: "model \<Rightarrow> (string \<rightharpoonup> jsval)"
  child_save :: "nat \<Rightarrow> obj \<Rightarrow> error option \<times> obj \<times> event list"

definition MODEL_DESC :: string where
  "MODEL_DESC = ''Editable root model''"

definition wrapError :: "model \<Rightarrow> portal_action \<Rightarrow> error \<Rightarrow> error" where
  "wrapError m action e = DataPortalError MODEL_DESC (modelName m) action e"

subsection \<open>Transfer objects\<close>

definition baseToDto :: "model \<Rightarrow> (string \<rightharpoonup> jsval)" where
  "baseToDto m =
     foldl (\<lambda>dto p. dto(name p \<mapsto> DataStore_getValue (store m) p)) Map.empty
       (filter isOnDto (properties m))"

definition toDto :: "env \<Rightarrow> model \<Rightarrow> error + (string \<rightharpoonup> jsval)" where
  "toDto E m = (case ext_toDto E of Some f \<Rightarrow> f m | None \<Rightarrow> Inr (baseToDto m))"

text \<open>
  \<^verbatim>\<open>function setPropertyValue(property, value) { if (store.setValue(property, value))
     markAsChanged(true); }\<close>
\<close>

definition setPropertyValue :: "property \<Rightarrow> jsval \<Rightarrow> model \<Rightarrow> error option \<times> model" where
  "setPropertyValue p v m =
     (case DataStore_setValue (store m) p v of
        (True, st) \<Rightarrow> root_markAsChanged True (m\<lparr>store := st\<rparr>)
      | (False, st) \<Rightarrow> (None, m\<lparr>store := st\<rparr>))"

text \<open>
  \<^verbatim>\<open>if (dto.hasOwnProperty(property.name) && typeof dto[property.name] !== 'function')
     setPropertyValue(property, dto[property.name]);\<close> for every property that is on the dto.
\<close>

fun fromDto_each :: "(string \<rightharpoonup> jsval) \<Rightarrow> property list \<Rightarrow> model \<Rightarrow> error option \<times> model" where
  "fromDto_each dto [] m = (None, m)"
| "fromDto_each dto (p # ps) m =
     (case dto (name p) of
        None \<Rightarrow> fromDto_each dto ps m
      | Some (JFunction f) \<Rightarrow> fromDto_each dto ps m
      | Some v \<Rightarrow>
          (case setPropertyValue p v m of
             (Some e, m') \<Rightarrow> (Some e, m')
           | (None, m') \<Rightarrow> fromDto_each dto ps m'))"

definition baseFromDto :: "(string \<rightharpoonup> jsval) \<Rightarrow> model \<Rightarrow> error option \<times> model" where
  "baseFromDto dto m = fromDto_each dto (filter isOnDto (properties m)) m"

definition fromDto :: "env \<Rightarrow> (string \<rightharpoonup> jsval) \<Rightarrow> model \<Rightarrow> error option \<times> model" where
  "fromDto E dto m = (case ext_fromDto E of Some f \<Rightarrow> f dto m | None \<Rightarrow> baseFromDto dto m)"

subsection \<open>Child methods\<close>

text \<open>
  \<^verbatim>\<open>insertChildren\<close>, \<^verbatim>\<open>updateChildren\<close> and \<^verbatim>\<open>removeChildren\<close> have the same body:
  \<^verbatim>\<open>properties.children().forEach(function(property) { ... child.save(connection); })\<close>.
\<close>

fun saveChildren :: "env \<Rightarrow> nat \<Rightarrow> obj list \<Rightarrow> error option \<times> obj list \<times> event list" where
  "saveChildren E c [] = (None, [], [])"
| "saveChildren E c (k # ks) =
     (case child_save E c k of
        (Some e, k', t) \<Rightarrow> (Some e, k' # ks, map InChild t)
      | (None, k', t) \<Rightarrow>
          (case saveChildren E c ks of (e, ks', t') \<Rightarrow> (e, k' # ks', map InChild t @ t')))"

definition insertChildren :: "env \<Rightarrow> nat \<Rightarrow> obj list \<Rightarrow> error option \<times> obj list \<times> event list" where
  "insertChildren = saveChildren"

definition updateChildren :: "env \<Rightarrow> nat \<Rightarrow> obj list \<Rightarrow> error option \<times> obj list \<times> event list" where
  "updateChildren = saveChildren"

definition removeChildren :: "env \<Rightarrow> nat \<Rightarrow> obj list \<Rightarrow> error option \<times> obj list \<times> event list" where
  "removeChildren = saveChildren"

subsection \<open>Update\<close>

text \<open>
  The statements of the \<^verbatim>\<open>try\<close> block that execute the update of the object itself:
  the custom \<^verbatim>\<open>extensions.dataUpdate\<close>, else, when \<^verbatim>\<open>isDirty\<close>, \<^verbatim>\<open>toDto\<close>,
  \<^verbatim>\<open>dao.$runMethod('update', connection, dto)\<close> and \<^verbatim>\<open>fromDto\<close>.
\<close>

definition update_self :: "env \<Rightarrow> nat \<Rightarrow> model \<Rightarrow> error option \<times> model \<times> event list" where
  "update_self E c m =
     (case dataUpdate E of
        Some f \<Rightarrow> (case f c m of (e, m') \<Rightarrow> (e, m', [Extension ''dataUpdate'']))
      | None \<Rightarrow>
          if isDirty m then
            (case toDto E m of
               Inl e \<Rightarrow> (Some e, m, [])
             | Inr dto \<Rightarrow>
                 (case dao_update E c dto of
                    Inl e \<Rightarrow> (Some e, m, [DaoCall ''update'' (Some e)])
                  | Inr dto' \<Rightarrow>
                      (case fromDto E dto' m of
                         (e, m') \<Rightarrow> (e, m', [DaoCall ''update'' None]))))
          else (None, m, []))"

text \<open>The \<^verbatim>\<open>try\<close> block of \<^verbatim>\<open>data_update\<close>; \<open>Some e\<close> is the exception that leaves it.\<close>

definition data_update_try ::
  "env \<Rightarrow> model \<Rightarrow> obj list \<Rightarrow> error option \<times> model \<times> obj list \<times> event list" where
  "data_update_try E m kids =
     (case beginTransaction E of
        Inl e \<Rightarrow> (Some e, m, kids, [BeginTransaction])
      | Inr c \<Rightarrow>
          (let m1 = m\<lparr>connection := Some c\<rparr>;
               t1 = [BeginTransaction, Emit ''preSave'' Update None, Emit ''preUpdate'' Update None]
           in case update_self E c m1 of
                (Some e, m2, t2) \<Rightarrow> (Some e, m2, kids, t1 @ t2)
              | (None, m2, t2) \<Rightarrow>
                  (case updateChildren E c kids of
                     (Some e, kids', t3) \<Rightarrow> (Some e, m2, kids', t1 @ t2 @ t3)
                   | (None, kids', t3) \<Rightarrow>
                       (case markAsPristine m2 of
                          (Some e, m3) \<Rightarrow> (Some e, m3, kids', t1 @ t2 @ t3)
                        | (None, m3) \<Rightarrow>
                            (let t4 = [Emit ''postUpdate'' Update None, Emit ''postSave'' Update None]
                             in case commitTransaction E (connection m3) of
                                  Inl e \<Rightarrow>
                                    (Some e, m3, kids', t1 @ t2 @ t3 @ t4 @ [CommitTransaction])
                                | Inr c' \<Rightarrow>
                                    (None, m3\<lparr>connection := c'\<rparr>, kids',
                                     t1 @ t2 @ t3 @ t4 @ [CommitTransaction]))))))"

text \<open>
  The \<^verbatim>\<open>catch (e)\<close> block, shared by insert, update and remove up to the action and the
  event name: wrap the error, launch the finish events if there is a connection, undo
  the transaction, rethrow the wrapped error.
\<close>

definition data_catch ::
  "env \<Rightarrow> portal_action \<Rightarrow> string \<Rightarrow> error \<Rightarrow> model \<Rightarrow> error option \<times> model \<times> event list" where
  "data_catch E action post e m =
     (let dpError = wrapError m action e;
          t1 = (if connection m \<noteq> None
                then [Emit post action (Some dpError), Emit ''postSave'' action (Some dpError)]
                else [])
      in case rollbackTransaction E (connection m) of
           Inl e' \<Rightarrow> (Some e', m, t1 @ [RollbackTransaction])
         | Inr c' \<Rightarrow> (Some dpError, m\<lparr>connection := c'\<rparr>, t1 @ [RollbackTransaction]))"

definition data_update ::
  "env \<Rightarrow> model \<Rightarrow> obj list \<Rightarrow> error option \<times> model \<times> obj list \<times> event list" where
  "data_update E m kids =
     (case canDo (authorization E) UpdateObject m of
        (False, m0) \<Rightarrow> (None, m0, kids, [])
      | (True, m0) \<Rightarrow>
          (case data_update_try E m0 kids of
             (None, m1, kids1, t) \<Rightarrow> (None, m1, kids1, t)
           | (Some e, m1, kids1, t) \<Rightarrow>
               (case data_catch E Update ''postUpdate'' e m1 of
                  (e', m2, t') \<Rightarrow> (e', m2, kids1, t @ t'))))"

subsection \<open>Insert\<close>

definition insert_self :: "env \<Rightarrow> nat \<Rightarrow> model \<Rightarrow> error option \<times> model \<times> event list" where
  "insert_self E c m =
     (case dataInsert E of
        Some f \<Rightarrow> (case f c m of (e, m') \<Rightarrow> (e, m', [Extension ''dataInsert'']))
      | None \<Rightarrow>
          (case toDto E m of
             Inl e \<Rightarrow> (Some e, m, [])
           | Inr dto \<Rightarrow>
               (case dao_insert E c dto of
                  Inl e \<Rightarrow> (Some e, m, [DaoCall ''insert'' (Some e)])
                | Inr dto' \<Rightarrow>
                    (case fromDto E dto' m of
                       (e, m') \<Rightarrow> (e, m', [DaoCall ''insert'' None])))))"

definition data_insert_try ::
  "env \<Rightarrow> model \<Rightarrow> obj list \<Rightarrow> error option \<times> model \<times> obj list \<times> event list" where
  "data_insert_try E m kids =
     (case beginTransaction E of
        Inl e \<Rightarrow> (Some e, m, kids, [BeginTransaction])
      | Inr c \<Rightarrow>
          (let m1 = m\<lparr>connection := Some c\<rparr>;
               t1 = [BeginTransaction, Emit ''preSave'' Insert None, Emit ''preInsert'' Insert None]
           in case insert_self E c m1 of
                (Some e, m2, t2) \<Rightarrow> (Some e, m2, kids, t1 @ t2)
              | (None, m2, t2) \<Rightarrow>
                  (case insertChildren E c kids of
                     (Some e, kids', t3) \<Rightarrow> (Some e, m2, kids', t1 @ t2 @ t3)
                   | (None, kids', t3) \<Rightarrow>
                       (case markAsPristine m2 of
                          (Some e, m3) \<Rightarrow> (Some e, m3, kids', t1 @ t2 @ t3)
                        | (None, m3) \<Rightarrow>
                            (let t4 = [Emit ''postInsert'' Insert None, Emit ''postSave'' Insert None]
                             in case commitTransaction E (connection m3) of
                                  Inl e \<Rightarrow>
                                    (Some e, m3, kids', t1 @ t2 @ t3 @ t4 @ [CommitTransaction])
                                | Inr c' \<Rightarrow>
                                    (None, m3\<lparr>connection := c'\<rparr>, kids',
                                     t1 @ t2 @ t3 @ t4 @ [CommitTransaction]))))))"

definition data_insert ::
  "env \<Rightarrow> model \<Rightarrow> obj list \<Rightarrow> error option \<times> model \<times> obj list \<times> event list" where
  "data_insert E m kids =
     (case canDo (authorization E) CreateObject m of
        (False, m0) \<Rightarrow> (None, m0, kids, [])
      | (True, m0) \<Rightarrow>
          (case data_insert_try E m0 kids of
             (None, m1, kids1, t) \<Rightarrow> (None, m1, kids1, t)
           | (Some e, m1, kids1, t) \<Rightarrow>
               (case data_catch E Insert ''postInsert'' e m1 of
                  (e', m2, t') \<Rightarrow> (e', m2, kids1, t @ t'))))"

subsection \<open>Remove\<close>

definition remove_self :: "env \<Rightarrow> nat \<Rightarrow> model \<Rightarrow> error option \<times> model \<times> event list" where
  "remove_self E c m =
     (case dataRemove E of
        Some f \<Rightarrow> (case f c m of (e, m') \<Rightarrow> (e, m', [Extension ''dataRemove'']))
      | None \<Rightarrow>
          (case dao_remove E c (getKey E m) of
             Some e \<Rightarrow> (Some e, m, [DaoCall ''remove'' (Some e)])
           | None \<Rightarrow> (None, m, [DaoCall ''remove'' None])))"

definition data_remove_try ::
  "env \<Rightarrow> model \<Rightarrow> obj list \<Rightarrow> error option \<times> model \<times> obj list \<times> event list" where
  "data_remove_try E m kids =
     (case beginTransaction E of
        Inl e \<Rightarrow> (Some e, m, kids, [BeginTransaction])
      | Inr c \<Rightarrow>
          (let m1 = m\<lparr>connection := Some c\<rparr>;
               t1 = [BeginTransaction, Emit ''preSave'' Remove None, Emit ''preRemove'' Remove None]
           in case removeChildren E c kids of
                (Some e, kids', t2) \<Rightarrow> (Some e, m1, kids', t1 @ t2)
              | (None, kids', t2) \<Rightarrow>
                  (case remove_self E c m1 of
                     (Some e, m2, t3) \<Rightarrow> (Some e, m2, kids', t1 @ t2 @ t3)
                   | (None, m2, t3) \<Rightarrow>
                       (case markAsRemoved m2 of
                          (Some e, m3) \<Rightarrow> (Some e, m3, kids', t1 @ t2 @ t3)
                        | (None, m3) \<Rightarrow>
                            (let t4 = [Emit ''postRemove'' Remove None, Emit ''postSave'' Remove None]
                             in case commitTransaction E (connection m3) of
                                  Inl e \<Rightarrow>
                                    (Some e, m3, kids', t1 @ t2 @ t3 @ t4 @ [CommitTransaction])
                                | Inr c' \<Rightarrow>
                                    (None, m3\<lparr>connection := c'\<rparr>, kids',
                                     t1 @ t2 @ t3 @ t4 @ [CommitTransaction]))))))"

definition data_remove ::
  "env \<Rightarrow> model \<Rightarrow> obj list \<Rightarrow> error option \<times> model \<times> obj list \<times> event list" where
  "data_remove E m kids =
     (case canDo (authorization E) RemoveObject m of
        (False, m0) \<Rightarrow> (None, m0, kids, [])
      | (True, m0) \<Rightarrow>
          (case data_remove_try E m0 kids of
             (None, m1, kids1, t) \<Rightarrow> (None, m1, kids1, t)
           | (Some e, m1, kids1, t) \<Rightarrow>
               (case data_catch E Remove ''postRemove'' e m1 of
                  (e', m2, t') \<Rightarrow> (e', m2, kids1, t @ t'))))"

subsection \<open>Actions\<close>

text \<open>
  What \<^verbatim>\<open>save()\<close> hands back: \<^verbatim>\<open>this\<close>, \<^verbatim>\<open>null\<close>, or nothing at all (\<^verbatim>\<open>undefined\<close>) when the
  body of \<^verbatim>\<open>if (this.isValid())\<close> is skipped.
\<close>

datatype ret = RetThis | RetNull | RetUndefined

definition return_or_throw :: "ret \<Rightarrow> error option \<times> model \<times> obj list \<times> event list
    \<Rightarrow> ret outcome \<times> model \<times> obj list \<times> event list" where
  "return_or_throw r x = (case x of (None, y) \<Rightarrow> (Returned r, y) | (Some e, y) \<Rightarrow> (Thrown e, y))"

definition save :: "env \<Rightarrow> model \<Rightarrow> obj list \<Rightarrow> ret outcome \<times> model \<times> obj list \<times> event list" where
  "save E m kids =
     (case root_isValid (validate E) m of
        (False, m0) \<Rightarrow> (Returned RetUndefined, m0, kids, [])
      | (True, m0) \<Rightarrow>
          (case state m0 of
             Some Created \<Rightarrow> return_or_throw RetThis (data_insert E m0 kids)
           | Some Changed \<Rightarrow> return_or_throw RetThis (data_update E m0 kids)
           | Some MarkedForRemoval \<Rightarrow> return_or_throw RetNull (data_remove E m0 kids)
           | _ \<Rightarrow> (Returned RetThis, m0, kids, [])))"

text \<open>The calls of the data access objects (of the object or of a child) in a run.\<close>

fun is_DaoCall :: "event \<Rightarrow> bool" where
  "is_DaoCall (DaoCall method e) = True"
| "is_DaoCall (InChild ev) = is_DaoCall ev"
| "is_DaoCall _ = False"

definition dao_calls :: "event list \<Rightarrow> event list" where
  "dao_calls t = filter is_DaoCall t"

text \<open>The components of the result of a run.\<close>

definition returned :: "'a \<times> model \<times> obj list \<times> event list \<Rightarrow> 'a" where
  "returned r = fst r"

definition model_of :: "'a \<times> model \<times> obj list \<times> event list \<Rightarrow> model" where
  "model_of r = fst (snd r)"

definition trace_of :: "'a \<times> model \<times> obj list \<times> event list \<Rightarrow> event list" where
  "trace_of r = snd (snd (snd r))"

subsection \<open>Saving a child object (EditableChildObject)\<close>

text \<open>
  \<^verbatim>\<open>save(connection, callback)\<close> of the asynchronous child object: after \<^verbatim>\<open>this.isValid()\<close> it
  enters \<^verbatim>\<open>data_insert\<close>, \<^verbatim>\<open>data_update\<close> or \<^verbatim>\<open>data_remove\<close> (the only functions that call the
  data access object), or calls \<^verbatim>\<open>callback(null, this)\<close>; an invalid object does nothing.
\<close>

datatype save_branch =
  Enter_data_insert | Enter_data_update | Enter_data_remove | Callback_null_this | Nothing_called

definition child_save_branch :: "validator \<Rightarrow> obj \<Rightarrow> save_branch \<times> obj" where
  "child_save_branch V k =
     (case isValid V k of
        (False, k') \<Rightarrow> (Nothing_called, k')
      | (True, Obj m kids) \<Rightarrow>
          (case state m of
             Some Created \<Rightarrow> (Enter_data_insert, Obj m kids)
           | Some Changed \<Rightarrow> (Enter_data_update, Obj m kids)
           | Some MarkedForRemoval \<Rightarrow> (Enter_data_remove, Obj m kids)
           | _ \<Rightarrow> (Callback_null_this, Obj m kids)))"

section \<open>The isSavable property of the root model\<close>

text \<open>
  \<^verbatim>\<open>isDeleted\<close>, \<^verbatim>\<open>isNew\<close> and \<^verbatim>\<open>isDirty\<close> are defined on the instance with
  \<^verbatim>\<open>Object.defineProperty(this, ..., { get: ... })\<close>, so \<^verbatim>\<open>self.isDeleted\<close> evaluates to the
  boolean that the getter returns, and \<^verbatim>\<open>self.isDeleted()\<close> calls that boolean. A call whose
  callee is not a function throws a TypeError. \<open>run\<close> interprets the functions; no
  getter yields one. \<^verbatim>\<open>self.isValid\<close> is a plain method.
\<close>

definition js_call :: "(string \<Rightarrow> error + jsval) \<Rightarrow> jsval \<Rightarrow> error + jsval" where
  "js_call run callee =
     (case callee of
        JFunction f \<Rightarrow> run f
      | _ \<Rightarrow> Inl (TypeError ''is not a function''))"

fun truthy :: "jsval \<Rightarrow> bool" where
  "truthy JUndefined = False"
| "truthy JNull = False"
| "truthy (JBool b) = b"
| "truthy (JNum n) = (n \<noteq> 0)"
| "truthy (JStr s) = (s \<noteq> [])"
| "truthy (JFunction f) = True"

definition isSavable_action ::
  "(string \<Rightarrow> error + jsval) \<Rightarrow> model \<Rightarrow> error + authorization_action" where
  "isSavable_action run m =
     (case js_call run (JBool (get_isDeleted m)) of
        Inl e \<Rightarrow> Inl e
      | Inr d \<Rightarrow>
          if truthy d then Inr RemoveObject
          else (case js_call run (JBool (get_isNew m)) of
                  Inl e \<Rightarrow> Inl e
                | Inr n \<Rightarrow> Inr (if truthy n then CreateObject else UpdateObject)))"

definition isSavable ::
  "(string \<Rightarrow> error + jsval) \<Rightarrow> env \<Rightarrow> model \<Rightarrow> jsval outcome \<times> model" where
  "isSavable run E m =
     (case isSavable_action run m of
        Inl e \<Rightarrow> (Thrown e, m)
      | Inr a \<Rightarrow>
          (case canDo (authorization E) a m of
             (False, m1) \<Rightarrow> (Returned (JBool False), m1)
           | (True, m1) \<Rightarrow>
               (case js_call run (JBool (get_isDirty m1)) of
                  Inl e \<Rightarrow> (Thrown e, m1)
                | Inr d \<Rightarrow>
                    if \<not> truthy d then (Returned d, m1)
                    else (case root_isValid (validate E) m1 of
                            (v, m2) \<Rightarrow> (Returned (JBool v), m2)))))"

section \<open>Fetching the children: the counting join\<close>

text \<open>
  \<^verbatim>\<open>fetchChildren(dto, callback)\<close> of read-only-child-model.js starts \<^verbatim>\<open>child.fetch(...,
  finish)\<close> for every child. The local variables \<^verbatim>\<open>count\<close> and \<^verbatim>\<open>error\<close> and the calls of
  \<^verbatim>\<open>callback\<close> made so far (with their argument) are the state; a child operation that
  completes calls \<^verbatim>\<open>finish(err)\<close>, with \<^verbatim>\<open>err\<close> null (\<open>None\<close>) on success.
\<close>

record join =
  count :: nat
  error :: "error option"
  callback :: "error option list"

text \<open>
  \<^verbatim>\<open>function finish (err) { error = error || err;
     if (++count === properties.childCount()) callback(error); }\<close>
\<close>

definition finish :: "nat \<Rightarrow> error option \<Rightarrow> join \<Rightarrow> join" where
  "finish childCount err j =
     (let error' = (case error j of Some e \<Rightarrow> Some e | None \<Rightarrow> err);
          count' = count j + 1
      in j\<lparr>count := count', error := error',
           callback := (if count' = childCount then callback j @ [error'] else callback j)\<rparr>)"

text \<open>
  \<open>fetchChildren childCount done\<close>: the state after the child operations in \<open>done\<close> have
  completed, in that order. Without children \<^verbatim>\<open>callback(null)\<close> is called at once.
\<close>

definition fetchChildren :: "nat \<Rightarrow> error option list \<Rightarrow> join" where
  "fetchChildren childCount done =
     (if childCount \<noteq> 0 then
        foldl (\<lambda>j err. finish childCount err j) \<lparr>count = 0, error = None, callback = []\<rparr> done
      else \<lparr>count = 0, error = None, callback = [None]\<rparr>)"

text \<open>
  \<^verbatim>\<open>EditableCollection.fetch(data, callback)\<close> of read-only-collection.js: one
  \<^verbatim>\<open>itemType.load(parent, dto, function (err, item) {...})\<close> per element of \<^verbatim>\<open>data\<close>; the
  callback of a load either records the error or pushes the item.
\<close>

record 'i collection_join = join +
  items :: "'i list"

definition loaded :: "nat \<Rightarrow> error + 'i \<Rightarrow> 'i collection_join \<Rightarrow> 'i collection_join" where
  "loaded n r j =
     (let j1 = (case r of
                  Inl err \<Rightarrow> j\<lparr>error := (case error j of Some e \<Rightarrow> Some e | None \<Rightarrow> Some err)\<rparr>
                | Inr item \<Rightarrow> j\<lparr>items := items j @ [item]\<rparr>);
          count' = count j1 + 1
      in j1\<lparr>count := count',
            callback := (if count' = n then callback j1 @ [error j1] else callback j1)\<rparr>)"

definition collection_fetch :: "nat \<Rightarrow> 'i list \<Rightarrow> (error + 'i) list \<Rightarrow> 'i collection_join" where
  "collection_fetch n items0 done =
     (if n \<noteq> 0 then
        foldl (\<lambda>j r. loaded n r j)
          \<lparr>count = 0, error = None, callback = [], items = items0\<rparr> done
      else \<lparr>count = 0, error = None, callback = [None], items = items0\<rparr>)"

text \<open>The first error among the completed operations, \<open>None\<close> when all succeeded.\<close>

fun first_error :: "error option list \<Rightarrow> error option" where
  "first_error [] = None"
| "first_error (None # es) = first_error es"
| "first_error (Some e # es) = Some e"

fun load_error :: "error + 'i \<Rightarrow> error option" where
  "load_error (Inl e) = Some e"
| "load_error (Inr i) = None"

section \<open>Broken rules of a read-only root collection\<close>

text \<open>
  The identifiers that are declared in the scopes enclosing the callback of
  \<^verbatim>\<open>items.forEach\<close> in \<^verbatim>\<open>ReadOnlyRootCollectionSync#getBrokenRules\<close>, innermost first: the
  callback, \<^verbatim>\<open>getBrokenRules\<close>, the constructor, the factory, the module and the module
  wrapper of Node.js. (The global object has no member named \<^verbatim>\<open>property\<close>.)
\<close>

definition identifiers_in_scope :: "string list" where
  "identifiers_in_scope =
     [''item'', ''childBrokenRules'',
      ''namespace'', ''bro'',
      ''eventHandlers'', ''self'', ''items'', ''brokenRules'', ''isValidated'', ''dataContext'',
      ''connection'', ''totalItems'', ''getTransferContext'', ''baseToCto'',
      ''getAuthorizationContext'', ''canDo'', ''canExecute'', ''getDataContext'', ''raiseEvent'',
      ''wrapError'', ''data_fetch'',
      ''name'', ''itemType'', ''rules'', ''extensions'', ''dao'', ''ReadOnlyRootCollectionSync'',
      ''util'', ''config'', ''EnsureArgument'', ''CollectionBase'', ''ModelError'',
      ''ExtensionManagerSync'', ''EventHandlerList'', ''TransferContext'', ''RuleManager'',
      ''BrokenRuleList'', ''AuthorizationAction'', ''AuthorizationContext'',
      ''BrokenRulesResponse'', ''DataPortalAction'', ''DataPortalContext'', ''DataPortalEvent'',
      ''DataPortalEventArgs'', ''DataPortalError'', ''CLASS_NAME'', ''MODEL_DESC'', ''M_FETCH'',
      ''ReadOnlyRootCollectionSyncFactory'',
      ''exports'', ''require'', ''module'', ''__filename'', ''__dirname'']"

text \<open>Evaluating an identifier: a name that no scope declares throws a ReferenceError.\<close>

definition resolve :: "string list \<Rightarrow> string \<Rightarrow> error option" where
  "resolve scope x = (if x \<in> set scope then None else Some (ReferenceError x))"

text \<open>
  \<^verbatim>\<open>items.forEach(function (item) { var childBrokenRules = item.getBrokenRules(namespace);
     if (childBrokenRules) bro.addChild(property.name, childBrokenRules); });\<close>
  An item is given by what its \<^verbatim>\<open>getBrokenRules\<close> returns (\<open>None\<close>: null). The class of
  \<^verbatim>\<open>bro\<close> (rules/broken-rules-output.js) is missing: \<open>addChild\<close> and \<open>len\<close> (\<^verbatim>\<open>$length\<close>) are
  parameters, and \<open>nameOf\<close> gives the \<^verbatim>\<open>name\<close> member of the value of an identifier.
\<close>

fun merge_items ::
  "(string \<Rightarrow> 'o \<Rightarrow> 'o \<Rightarrow> 'o) \<Rightarrow> (string \<Rightarrow> string) \<Rightarrow> 'o option list \<Rightarrow> 'o \<Rightarrow> error + 'o" where
  "merge_items addChild nameOf [] bro = Inr bro"
| "merge_items addChild nameOf (None # its) bro = merge_items addChild nameOf its bro"
| "merge_items addChild nameOf (Some childBrokenRules # its) bro =
     (case resolve identifiers_in_scope ''property'' of
        Some e \<Rightarrow> Inl e
      | None \<Rightarrow>
          merge_items addChild nameOf its (addChild (nameOf ''property'') childBrokenRules bro))"

definition getBrokenRules ::
  "(string \<Rightarrow> 'o \<Rightarrow> 'o \<Rightarrow> 'o) \<Rightarrow> (string \<Rightarrow> string) \<Rightarrow> ('o \<Rightarrow> nat) \<Rightarrow> 'o \<Rightarrow> 'o option list
     \<Rightarrow> 'o option outcome" where
  "getBrokenRules addChild nameOf len output its =
     (case merge_items addChild nameOf its output of
        Inl e \<Rightarrow> Thrown e
      | Inr bro \<Rightarrow> Returned (if len bro \<noteq> 0 then Some bro else None))"

section \<open>A sample model\<close>

text \<open>
  A blanket order with one property, \<^verbatim>\<open>quantity\<close>, that a required-value rule guards; a
  data access object whose methods all fail; an authorization rule that denies reading
  \<^verbatim>\<open>quantity\<close>.
\<close>

definition quantity :: property where
  "quantity = \<lparr>name = ''quantity'', isOnDto = True, isOnCto = True, isReadOnly = False\<rparr>"

definition required_quantity :: validator where
  "required_quantity n p st =
     (if name p = ''quantity'' \<and> DataStore_getValue st p = JNull
      then [\<lparr>ruleName = ''Required'', propertyName = ''quantity'',
              message = ''Property quantity is required.'', severity = Error\<rparr>]
      else [])"

definition failing_dao :: env where
  "failing_dao =
     \<lparr> validate = required_quantity, authorization = [],
       beginTransaction = Inr 1,
       commitTransaction = (\<lambda>c. Inr None),
       rollbackTransaction = (\<lambda>c. Inr None),
       dao_insert = (\<lambda>c dto. Inl (Failure ''insert failed'')),
       dao_update = (\<lambda>c dto. Inl (Failure ''update failed'')),
       dao_remove = (\<lambda>c key. Some (Failure ''remove failed'')),
       dataInsert = None, dataUpdate = None, dataRemove = None,
       ext_toDto = None, ext_fromDto = None,
       getKey = (\<lambda>m. Map.empty),
       child_save = (\<lambda>c k. (None, k, [])) \<rparr>"

definition order :: "model_state \<Rightarrow> bool \<Rightarrow> jsval \<Rightarrow> model" where
  "order s d q =
     (new_model ''BlanketOrder'' [quantity])\<lparr>state := Some s, isDirty := d,
        store := [''quantity'' \<mapsto> q]\<rparr>"

definition broken_item :: obj where
  "broken_item =
     Obj ((new_model ''BlanketOrderItem'' [])\<lparr>state := Some Changed, isValidated := True,
            brokenRules := [\<lparr>ruleName = ''Required'', propertyName = ''quantity'',
                             message = ''Property quantity is required.'', severity = Error\<rparr>]\<rparr>) []"

definition deny_quantity :: "authorization_rule list" where
  "deny_quantity =
     [\<lparr>rule_name = ''IsInRole'', rule_action = ReadProperty, rule_target = ''quantity'',
       rule_message = ''The user is not in the role.'', enabled = True, denies = True\<rparr>]"

text \<open>A custom getter that consults nothing: \<^verbatim>\<open>function (ctx) { return 42; }\<close>.\<close>

definition constant_getter :: "model \<Rightarrow> jsval outcome \<times> model" where
  "constant_getter m = (Returned (JNum 42), m)"

text \<open>A read of a property is denied when some enabled rule for it denies.\<close>

definition read_denied :: "authorization_rule list \<Rightarrow> property \<Rightarrow> bool" where
  "read_denied rules p =
     list_ex (\<lambda>r. enabled r \<and> rule_action r = ReadProperty \<and> rule_target r = name p \<and> denies r)
       rules"


section \<open>The state machine against the transition table\<close>

text \<open>
  Apart from the cell unset/changed, a root model without child objects throws exactly
  in the forbidden cells of the table.
\<close>

lemma root_table_conformance:
  "(state m, to) \<noteq> (None, Changed) \<Longrightarrow>
   (fst (mark to itself (Root m) []) = None) = (transition_table (state m) to \<noteq> Forbidden)"
  apply (cases "state m"; cases to)
  apply (auto simp: mark_def markAsPristine_def markAsRemoved_def markAsCreated_def
      markAsChanged_def root_markAsCreated_def root_markAsChanged_def split: prod.splits)
  apply (case_tac a; simp)+
  done

text \<open>
  The same for a child object without children of its own, when its parent accepts
  \<^verbatim>\<open>childHasChanged()\<close> (a parent in state removed throws there).
\<close>

lemma child_table_conformance:
  "(state m, to) \<noteq> (None, Changed) \<Longrightarrow> fst (childHasChanged par) = None \<Longrightarrow>
   (fst (mark to itself (Child m par) []) = None) = (transition_table (state m) to \<noteq> Forbidden)"
  apply (cases "state m"; cases to; cases "childHasChanged par")
  apply (auto simp: mark_def markAsPristine_def markAsRemoved_def markAsCreated_def
      markAsChanged_def child_markAsCreated_def child_markAsChanged_def Let_def
      split: prod.splits)
  apply (case_tac a; simp)+
  done

text \<open>
  C1 (the code at the input where it departs from the claim). The table marks
  unset/changed as forbidden (\<^verbatim>\<open>N\<close>: impossible start up, throws exception), but
  \<^verbatim>\<open>markAsChanged\<close> called on a freshly constructed instance, whose state is still \<^verbatim>\<open>null\<close>,
  throws nothing and leaves the instance as it is, in the root model and in the child
  object alike.
\<close>

theorem markAsChanged_unset_is_silent:
  "transition_table None Changed = Forbidden \<and>
   markAsChanged itself (Root (new_model n ps)) = (None, Root (new_model n ps)) \<and>
   markAsChanged itself (Child (new_model n ps) par) = (None, Child (new_model n ps) par)"
  by (simp add: markAsChanged_def root_markAsChanged_def child_markAsChanged_def new_model_def)

section \<open>Validity\<close>

lemma isValid_append:
  "BrokenRuleList_isValid (a @ b) = (BrokenRuleList_isValid a \<and> BrokenRuleList_isValid b)"
  by (simp add: BrokenRuleList_isValid_def)

lemma isValid_concat:
  "BrokenRuleList_isValid (concat (map all_rules ks)) =
     list_all (\<lambda>k. BrokenRuleList_isValid (all_rules k)) ks"
  by (induction ks) (simp_all add: BrokenRuleList_isValid_def)

text \<open>
  In the child object \<^verbatim>\<open>isValid()\<close> is true exactly when, after the call, no broken rule of
  severity error is recorded in the object or in any of its descendants.
\<close>

lemma child_isValid_iff:
  "fst (isValid V k) = BrokenRuleList_isValid (all_rules (snd (isValid V k)))"
  "fst (childrenAreValid V ks) =
     list_all (\<lambda>k. BrokenRuleList_isValid (all_rules k)) (snd (childrenAreValid V ks))"
proof (induction V k and V ks rule: isValid_childrenAreValid.induct)
  case (1 V m kids)
  obtain m1 kids1 where
    x: "(if \<not> isValidated m then checkRules V (Obj m kids) else Obj m kids) = Obj m1 kids1"
    by (cases "if \<not> isValidated m then checkRules V (Obj m kids) else Obj m kids") auto
  show ?case
  proof (cases "BrokenRuleList_isValid (brokenRules m1)")
    case True
    obtain b kids2 where c: "childrenAreValid V kids1 = (b, kids2)"
      by (cases "childrenAreValid V kids1") auto
    have r: "isValid V (Obj m kids) = (b, Obj m1 kids2)"
      by (subst isValid.simps) (simp only: x obj.case True if_True c prod.case)
    from 1[OF x True] c
    have "b = list_all (\<lambda>k. BrokenRuleList_isValid (all_rules k)) kids2" by simp
    then show ?thesis
      by (simp only: r fst_conv snd_conv all_rules.simps isValid_append isValid_concat True
          simp_thms)
  next
    case False
    have r: "isValid V (Obj m kids) = (False, Obj m1 kids1)"
      by (subst isValid.simps) (simp only: x obj.case False if_False)
    show ?thesis
      by (simp only: r fst_conv snd_conv all_rules.simps isValid_append False simp_thms)
  qed
next
  case (2 V)
  show ?case by simp
next
  case (3 V k ks)
  obtain b k' where p: "isValid V k = (b, k')" by (cases "isValid V k") auto
  show ?case
  proof (cases b)
    case True
    obtain b2 ks' where c: "childrenAreValid V ks = (b2, ks')"
      by (cases "childrenAreValid V ks") auto
    have r: "childrenAreValid V (k # ks) = (b2, k' # ks')"
      using p True c by simp
    from 3(1) p True have k: "BrokenRuleList_isValid (all_rules k')" by simp
    have "b = True" using True by simp
    from 3(2)[OF p[symmetric] this] c
    have "b2 = list_all (\<lambda>k. BrokenRuleList_isValid (all_rules k)) ks'" by simp
    with k show ?thesis unfolding r by simp
  next
    case False
    have r: "childrenAreValid V (k # ks) = (False, k' # ks)"
      using p False by simp
    from 3(1) p False have "\<not> BrokenRuleList_isValid (all_rules k')" by simp
    then show ?thesis unfolding r by simp
  qed
qed

text \<open>
  C2 (the code at the input where it departs from the claim). \<^verbatim>\<open>isValid()\<close> of the editable
  root model returns \<^verbatim>\<open>brokenRules.isValid()\<close> of the root alone; it never asks its child
  objects. An edited blanket order whose own rules pass is reported valid whatever its
  children hold: the item \<open>broken_item\<close>, which records a broken rule of severity error
  (and whose own \<^verbatim>\<open>isValid()\<close> is false), does not count, and \<^verbatim>\<open>save()\<close> of the order with
  that item passes \<^verbatim>\<open>if (this.isValid())\<close> and begins a transaction.
\<close>

theorem root_isValid_ignores_children:
  "fst (root_isValid required_quantity (order Changed True (JNum 5))) \<and>
   \<not> BrokenRuleList_isValid (all_rules broken_item) \<and>
   \<not> fst (isValid required_quantity broken_item) \<and>
   BeginTransaction \<in> set (trace_of (save failing_dao (order Changed True (JNum 5)) [broken_item]))"
  by (simp add: save_def root_isValid_def root_checkRules_def validate_properties_def
      failing_dao_def required_quantity_def quantity_def DataStore_getValue_def
      BrokenRuleList_isValid_def order_def new_model_def data_update_def canDo_def
      hasPermission_def data_update_try_def update_self_def toDto_def baseToDto_def
      data_catch_def wrapError_def return_or_throw_def trace_of_def Let_def broken_item_def)

section \<open>Saving the root model\<close>

lemma root_isValid_keeps:
  "state (snd (root_isValid V m)) = state m"
  "modelName (snd (root_isValid V m)) = modelName m"
  "isDirty (snd (root_isValid V m)) = isDirty m"
  "connection (snd (root_isValid V m)) = connection m"
  by (simp_all add: root_isValid_def root_checkRules_def validate_properties_def)

lemma canDo_keeps:
  "state (snd (canDo rules a m)) = state m"
  "modelName (snd (canDo rules a m)) = modelName m"
  "isDirty (snd (canDo rules a m)) = isDirty m"
  "connection (snd (canDo rules a m)) = connection m"
  by (simp_all add: canDo_def split: prod.splits)

lemma saveChildren_trace:
  "saveChildren E c kids = (e, kids', t) \<Longrightarrow> ev \<in> set t \<Longrightarrow> \<exists>ev'. ev = InChild ev'"
proof (induction kids arbitrary: e kids' t)
  case Nil
  then show ?case by simp
next
  case (Cons k ks)
  obtain e1 k1 t1 where k: "child_save E c k = (e1, k1, t1)" by (cases "child_save E c k") auto
  show ?case
  proof (cases e1)
    case (Some x)
    with Cons.prems k show ?thesis by auto
  next
    case None
    obtain e2 ks2 t2 where r: "saveChildren E c ks = (e2, ks2, t2)"
      by (cases "saveChildren E c ks") auto
    from Cons.prems k None r have "t = map InChild t1 @ t2" by simp
    with Cons.prems(2) Cons.IH[OF r] show ?thesis by auto
  qed
qed

lemma update_self_failure:
  assumes "update_self E c m = (e, m', t)" and "DaoCall ''update'' (Some cause) \<in> set t"
  shows "e = Some cause \<and> m' = m"
  using assms
  by (auto simp: update_self_def split: option.splits if_splits sum.splits prod.splits)

lemma data_update_try_failure:
  assumes b: "beginTransaction E = Inr c"
      and r: "data_update_try E m kids = (e, m', kids', t)"
      and d: "DaoCall ''update'' (Some cause) \<in> set t"
  shows "e = Some cause \<and> m' = m\<lparr>connection := Some c\<rparr> \<and> CommitTransaction \<notin> set t"
proof -
  obtain e2 m2 t2 where u: "update_self E c (m\<lparr>connection := Some c\<rparr>) = (e2, m2, t2)"
    by (cases "update_self E c (m\<lparr>connection := Some c\<rparr>)") auto
  show ?thesis
  proof (cases e2)
    case (Some x)
    with r b u have
      t: "t = [BeginTransaction, Emit ''preSave'' Update None, Emit ''preUpdate'' Update None] @ t2"
      and e: "e = Some x" and m: "m' = m2"
      by (simp_all add: data_update_try_def)
    from d t have "DaoCall ''update'' (Some cause) \<in> set t2" by simp
    from update_self_failure[OF u this] Some e m t u show ?thesis
      by (auto simp: update_self_def split: option.splits if_splits sum.splits prod.splits)
  next
    case None
    have nt2: "DaoCall ''update'' (Some cause) \<notin> set t2"
      using update_self_failure[OF u] None by auto
    obtain e3 k3 t3 where k: "updateChildren E c kids = (e3, k3, t3)"
      by (cases "updateChildren E c kids") auto
    then have nt3: "DaoCall ''update'' (Some cause) \<notin> set t3"
      using saveChildren_trace[of E c kids e3 k3 t3] by (auto simp: updateChildren_def)
    from r b u None k nt2 nt3 d show ?thesis
      by (auto simp: data_update_try_def Let_def split: option.splits prod.splits sum.splits)
  qed
qed

text \<open>
  C3. The root model is in state changed, and the call \<^verbatim>\<open>dao.$runMethod('update', ...)\<close>
  made inside \<^verbatim>\<open>save()\<close> throws \<open>cause\<close> (the run contains that failed call; \<open>c\<close> is the
  connection that \<^verbatim>\<open>beginTransaction\<close> gave, and \<^verbatim>\<open>rollbackTransaction\<close> itself returns).
  Then the transaction is rolled back and never committed, \<^verbatim>\<open>save()\<close> throws the
  DataPortalError that carries the action update and the cause, and the state of the
  object is still changed: \<^verbatim>\<open>markAsPristine\<close> has not been applied.
\<close>

theorem save_update_failure_rolls_back:
  assumes s: "state m = Some Changed"
      and d: "DaoCall ''update'' (Some cause) \<in> set (trace_of (save E m kids))"
      and b: "beginTransaction E = Inr c"
      and rb: "rollbackTransaction E (Some c) = Inr c'"
  shows "RollbackTransaction \<in> set (trace_of (save E m kids)) \<and>
         CommitTransaction \<notin> set (trace_of (save E m kids)) \<and>
         returned (save E m kids) =
           Thrown (DataPortalError MODEL_DESC (modelName m) Update cause) \<and>
         state (model_of (save E m kids)) = Some Changed"
proof -
  obtain v m0 where iv: "root_isValid (validate E) m = (v, m0)"
    by (cases "root_isValid (validate E) m") auto
  have m0: "state m0 = Some Changed" "modelName m0 = modelName m"
    using root_isValid_keeps[of "validate E" m] iv s by simp_all
  have v: "v" using d iv by (cases v) (simp_all add: save_def trace_of_def)
  have sv: "save E m kids = return_or_throw RetThis (data_update E m0 kids)"
    using iv v m0 by (simp add: save_def)
  obtain p ma where cd: "canDo (authorization E) UpdateObject m0 = (p, ma)"
    by (cases "canDo (authorization E) UpdateObject m0") auto
  have ma: "state ma = Some Changed" "modelName ma = modelName m"
    using canDo_keeps[of "authorization E" UpdateObject m0] cd m0 by simp_all
  have p: "p" using d sv cd
    by (cases p) (simp_all add: data_update_def return_or_throw_def trace_of_def)
  obtain e1 m1 k1 t1 where tr: "data_update_try E ma kids = (e1, m1, k1, t1)"
    by (cases "data_update_try E ma kids") auto
  have dt: "DaoCall ''update'' (Some cause) \<in> set t1"
    using d sv cd p tr
    by (auto simp: data_update_def return_or_throw_def trace_of_def data_catch_def Let_def
        split: option.splits sum.splits)
  from data_update_try_failure[OF b tr dt]
  have f: "e1 = Some cause" "m1 = ma\<lparr>connection := Some c\<rparr>" "CommitTransaction \<notin> set t1"
    by simp_all
  have "data_update E m0 kids =
        (Some (DataPortalError MODEL_DESC (modelName m) Update cause), ma\<lparr>connection := c'\<rparr>, k1,
         t1 @ [Emit ''postUpdate'' Update (Some (DataPortalError MODEL_DESC (modelName m) Update cause)),
               Emit ''postSave'' Update (Some (DataPortalError MODEL_DESC (modelName m) Update cause)),
               RollbackTransaction])"
    using cd p tr f rb ma by (simp add: data_update_def data_catch_def wrapError_def Let_def)
  with sv f ma show ?thesis
    by (simp add: return_or_throw_def trace_of_def returned_def model_of_def)
qed

text \<open>
  An edited, valid order (quantity 5, changed, itself dirty) saved through the failing
  data access object.
\<close>

theorem save_update_failure_rolls_back_witness:
  "state (order Changed True (JNum 5)) = Some Changed \<and>
   DaoCall ''update'' (Some (Failure ''update failed''))
     \<in> set (trace_of (save failing_dao (order Changed True (JNum 5)) [])) \<and>
   beginTransaction failing_dao = Inr 1 \<and>
   rollbackTransaction failing_dao (Some 1) = Inr None \<and>
   RollbackTransaction \<in> set (trace_of (save failing_dao (order Changed True (JNum 5)) [])) \<and>
   returned (save failing_dao (order Changed True (JNum 5)) []) =
     Thrown (DataPortalError MODEL_DESC ''BlanketOrder'' Update (Failure ''update failed'')) \<and>
   state (model_of (save failing_dao (order Changed True (JNum 5)) [])) = Some Changed"
proof -
  have s: "state (order Changed True (JNum 5)) = Some Changed"
    by (simp add: order_def)
  have n: "modelName (order Changed True (JNum 5)) = ''BlanketOrder''"
    by (simp add: order_def new_model_def)
  have b: "beginTransaction failing_dao = Inr 1"
    by (simp add: failing_dao_def)
  have rb: "rollbackTransaction failing_dao (Some 1) = Inr None"
    by (simp add: failing_dao_def)
  have d: "DaoCall ''update'' (Some (Failure ''update failed''))
     \<in> set (trace_of (save failing_dao (order Changed True (JNum 5)) []))"
    by (simp add: save_def root_isValid_def root_checkRules_def validate_properties_def
        failing_dao_def required_quantity_def quantity_def DataStore_getValue_def
        BrokenRuleList_isValid_def order_def new_model_def data_update_def canDo_def
        hasPermission_def data_update_try_def update_self_def toDto_def baseToDto_def
        data_catch_def wrapError_def return_or_throw_def trace_of_def Let_def)
  from save_update_failure_rolls_back[OF s d b rb] s d b rb n show ?thesis
    by simp
qed

text \<open>
  C5 (the code at the input where it departs from the claim). A pristine order whose
  required quantity is null, as a fetch can leave it, is not valid; \<^verbatim>\<open>save()\<close> skips the
  body of \<^verbatim>\<open>if (this.isValid())\<close>, where every \<^verbatim>\<open>return\<close> statement is, and so returns
  \<^verbatim>\<open>undefined\<close>, not the instance that its documentation (\<^verbatim>\<open>@returns\<close> the business object)
  and its \<^verbatim>\<open>default: return this;\<close> branch hand back for a pristine object.
\<close>

theorem save_pristine_invalid_returns_undefined:
  "state (order Pristine False JNull) = Some Pristine \<and>
   returned (save failing_dao (order Pristine False JNull) []) = Returned RetUndefined \<and>
   returned (save failing_dao (order Pristine False JNull) []) \<noteq> Returned RetThis"
  by (simp add: order_def new_model_def save_def root_isValid_def root_checkRules_def
      validate_properties_def failing_dao_def required_quantity_def quantity_def
      DataStore_getValue_def BrokenRuleList_isValid_def returned_def)

text \<open>
  The rest of the behaviour in state pristine: \<^verbatim>\<open>save()\<close> performs no call of a data
  access object and leaves the state pristine, valid or not; a valid instance is
  returned.
\<close>

lemma save_pristine_is_noop:
  assumes "state m = Some Pristine"
  shows "dao_calls (trace_of (save E m kids)) = [] \<and>
         state (model_of (save E m kids)) = Some Pristine \<and>
         (fst (root_isValid (validate E) m) \<longrightarrow> returned (save E m kids) = Returned RetThis)"
proof -
  obtain v m0 where iv: "root_isValid (validate E) m = (v, m0)"
    by (cases "root_isValid (validate E) m") auto
  have "state m0 = Some Pristine"
    using root_isValid_keeps(1)[of "validate E" m] iv assms by simp
  with iv show ?thesis
    by (cases v) (simp_all add: save_def trace_of_def model_of_def returned_def dao_calls_def)
qed

text \<open>A pristine order with quantity 5, which is valid.\<close>

lemma save_pristine_is_noop_example:
  "state (order Pristine False (JNum 5)) = Some Pristine \<and>
   fst (root_isValid (validate failing_dao) (order Pristine False (JNum 5))) \<and>
   dao_calls (trace_of (save failing_dao (order Pristine False (JNum 5)) [])) = [] \<and>
   state (model_of (save failing_dao (order Pristine False (JNum 5)) [])) = Some Pristine \<and>
   returned (save failing_dao (order Pristine False (JNum 5)) []) = Returned RetThis"
proof -
  have s: "state (order Pristine False (JNum 5)) = Some Pristine"
    by (simp add: order_def)
  have v: "fst (root_isValid (validate failing_dao) (order Pristine False (JNum 5)))"
    by (simp add: order_def new_model_def root_isValid_def root_checkRules_def
        validate_properties_def failing_dao_def required_quantity_def quantity_def
        DataStore_getValue_def BrokenRuleList_isValid_def)
  from save_pristine_is_noop[OF s, of failing_dao "[]"] s v show ?thesis
    by simp
qed

section \<open>Removing a created object\<close>

lemma isValid_keeps_state:
  assumes "isValid V (Obj m kids) = (b, Obj m1 kids1)"
  shows "state m1 = state m"
proof -
  obtain m2 kids2 where x:
    "(if \<not> isValidated m then checkRules V (Obj m kids) else Obj m kids) = Obj m2 kids2"
    by (cases "if \<not> isValidated m then checkRules V (Obj m kids) else Obj m kids") auto
  then have s: "state m2 = state m"
    by (auto simp: validate_properties_def split: if_splits)
  obtain b3 kids3 where c: "childrenAreValid V kids2 = (b3, kids3)"
    by (cases "childrenAreValid V kids2") auto
  have "isValid V (Obj m kids) =
      (if BrokenRuleList_isValid (brokenRules m2) then (b3, Obj m2 kids3) else (False, Obj m2 kids2))"
    by (subst isValid.simps) (simp only: x obj.case c prod.case)
  with assms s show ?thesis by (auto split: if_splits)
qed

lemma child_save_branch_removed:
  assumes "state m = Some Removed"
  shows "fst (child_save_branch V (Obj m kids)) \<in> {Callback_null_this, Nothing_called}"
proof -
  obtain b m1 kids1 where r: "isValid V (Obj m kids) = (b, Obj m1 kids1)"
    by (cases "isValid V (Obj m kids)"; cases "snd (isValid V (Obj m kids))") auto
  from isValid_keeps_state[OF r] assms have "state m1 = Some Removed" by simp
  with r show ?thesis by (cases b) (simp_all add: child_save_branch_def)
qed

text \<open>
  C6. For an editable instance in state created (root model or child object),
  \<^verbatim>\<open>remove()\<close> throws nothing and sets the state to removed at once; it touches neither
  the children nor the parent, and a mark function has no access to the data access
  object. A subsequent \<^verbatim>\<open>save()\<close> of the root model makes no call at all (so none of a
  data access object) and leaves the state removed; a subsequent \<^verbatim>\<open>save\<close> of the child
  object enters none of \<^verbatim>\<open>data_insert\<close>, \<^verbatim>\<open>data_update\<close>, \<^verbatim>\<open>data_remove\<close>.
\<close>

theorem remove_created_then_save:
  assumes "state m = Some Created"
  shows "remove (Root m) kids = (None, Root (m\<lparr>state := Some Removed\<rparr>), kids) \<and>
         remove (Child m par) kids = (None, Child (m\<lparr>state := Some Removed\<rparr>) par, kids) \<and>
         trace_of (save E (m\<lparr>state := Some Removed\<rparr>) kids) = [] \<and>
         dao_calls (trace_of (save E (m\<lparr>state := Some Removed\<rparr>) kids)) = [] \<and>
         state (model_of (save E (m\<lparr>state := Some Removed\<rparr>) kids)) = Some Removed \<and>
         fst (child_save_branch V (Obj (m\<lparr>state := Some Removed\<rparr>) kids))
           \<in> {Callback_null_this, Nothing_called}"
proof -
  obtain v m0 where iv: "root_isValid (validate E) (m\<lparr>state := Some Removed\<rparr>) = (v, m0)"
    by (cases "root_isValid (validate E) (m\<lparr>state := Some Removed\<rparr>)") auto
  have m0: "state m0 = Some Removed"
    using root_isValid_keeps(1)[of "validate E" "m\<lparr>state := Some Removed\<rparr>"] iv by simp
  have sv: "trace_of (save E (m\<lparr>state := Some Removed\<rparr>) kids) = [] \<and>
     state (model_of (save E (m\<lparr>state := Some Removed\<rparr>) kids)) = Some Removed"
    using iv m0 by (cases v) (simp_all add: save_def trace_of_def model_of_def)
  have ch: "fst (child_save_branch V (Obj (m\<lparr>state := Some Removed\<rparr>) kids))
           \<in> {Callback_null_this, Nothing_called}"
    by (rule child_save_branch_removed) simp
  from assms sv ch show ?thesis
    by (simp add: remove_def dao_calls_def)
qed

theorem remove_created_then_save_witness:
  "state (order Created True JNull) = Some Created \<and>
   remove (Root (order Created True JNull)) [] = (None, Root (order Removed True JNull), []) \<and>
   dao_calls (trace_of (save failing_dao (order Removed True JNull) [])) = []"
proof -
  have h: "state (order Created True JNull) = Some Created"
    by (simp add: order_def)
  have eq: "(order Created True JNull)\<lparr>state := Some Removed\<rparr> = order Removed True JNull"
    by (simp add: order_def)
  from remove_created_then_save[OF h, of "[]" "Root (order Pristine False JNull)" failing_dao
      required_quantity] h
  show ?thesis by (simp add: eq dao_calls_def)
qed

section \<open>A change of a child object seen from the parent\<close>





section \<open>Reading a property that an authorization rule denies\<close>

lemma hasPermission_denied:
  assumes "read_denied rules p"
  shows "\<exists>br. severity br = Error \<and>
           hasPermission rules ReadProperty (name p) brs = (False, brs @ [br])"
proof -
  from assms obtain r rs where
    "filter (\<lambda>r. enabled r \<and> rule_action r = ReadProperty \<and> rule_target r = name p \<and> denies r)
       rules = r # rs"
    by (cases "filter (\<lambda>r. enabled r \<and> rule_action r = ReadProperty \<and> rule_target r = name p
                         \<and> denies r) rules")
       (auto simp: read_denied_def list_ex_iff filter_empty_conv)
  then have "hasPermission rules ReadProperty (name p) brs =
      (False, brs @ [\<lparr>ruleName = rule_name r, propertyName = name p,
                       message = rule_message r, severity = Error\<rparr>])"
    by (simp add: hasPermission_def)
  then show ?thesis
    by (intro exI[of _ "\<lparr>ruleName = rule_name r, propertyName = name p,
                          message = rule_message r, severity = Error\<rparr>"]) simp
qed

text \<open>
  When the read of a property is denied by an authorization rule, the accessor of the
  read-only child model, the accessor of the read-only root object (custom getter or
  not) and the accessor of the editable root model for a property without a custom
  getter return \<^verbatim>\<open>null\<close> without throwing, and the broken rules of the instance are the
  former ones followed by exactly one new entry, of severity error.
\<close>

lemma denied_read_returns_null:
  assumes "read_denied rules p"
  shows "\<exists>br. severity br = Error \<and>
           ReadOnlyChildModel_get rules p m =
             (Returned JNull, m\<lparr>brokenRules := brokenRules m @ [br]\<rparr>) \<and>
           ReadOnlyRootObjectSync_get rules getter p m =
             (Returned JNull, m\<lparr>brokenRules := brokenRules m @ [br]\<rparr>) \<and>
           EditableRootModelSync_get rules None p m =
             (Returned JNull, m\<lparr>brokenRules := brokenRules m @ [br]\<rparr>)"
proof -
  from hasPermission_denied[OF assms, of "brokenRules m"] obtain br where
    "severity br = Error"
    "hasPermission rules ReadProperty (name p) (brokenRules m) = (False, brokenRules m @ [br])"
    by blast
  then show ?thesis
    by (intro exI[of _ br])
       (simp add: ReadOnlyChildModel_get_def EditableRootModelSync_get_def readPropertyValue_def
        ReadOnlyRootObjectSync_get_def canBeRead_def)
qed

lemma denied_read_returns_null_example:
  "read_denied deny_quantity quantity \<and>
   fst (ReadOnlyChildModel_get deny_quantity quantity (order Pristine False (JNum 5)))
     = Returned JNull \<and>
   length (brokenRules (snd
     (ReadOnlyChildModel_get deny_quantity quantity (order Pristine False (JNum 5))))) = 1"
proof -
  have h: "read_denied deny_quantity quantity"
    by (simp add: read_denied_def deny_quantity_def quantity_def)
  have b: "brokenRules (order Pristine False (JNum 5)) = []"
    by (simp add: order_def new_model_def)
  from denied_read_returns_null[OF h, where m = "order Pristine False (JNum 5)"
      and getter = None] h b
  show ?thesis
    by auto
qed

text \<open>
  C4 (the code at the input where it departs from the claim). In the editable root
  model the getter of the accessor calls a custom \<^verbatim>\<open>property.getter\<close> without calling
  \<^verbatim>\<open>readPropertyValue\<close>, hence without \<^verbatim>\<open>canBeRead\<close>. Reading \<^verbatim>\<open>quantity\<close>, whose read the rule
  \<open>deny_quantity\<close> denies, through the accessor of an order whose \<^verbatim>\<open>quantity\<close> has the
  custom getter \<open>constant_getter\<close> returns 42, not \<^verbatim>\<open>null\<close>, and records no broken rule:
  the instance is as it was. (The accessor of the read-only root object, which checks
  before it calls the getter, returns \<^verbatim>\<open>null\<close> there: \<open>denied_read_returns_null\<close>.)
\<close>

theorem custom_getter_skips_read_permission:
  "read_denied deny_quantity quantity \<and>
   EditableRootModelSync_get deny_quantity (Some constant_getter) quantity
       (order Pristine False (JNum 5))
     = (Returned (JNum 42), order Pristine False (JNum 5)) \<and>
   brokenRules (snd (EditableRootModelSync_get deny_quantity (Some constant_getter) quantity
       (order Pristine False (JNum 5)))) = []"
  by (simp add: read_denied_def deny_quantity_def quantity_def EditableRootModelSync_get_def
      constant_getter_def order_def new_model_def)

section \<open>The counting join\<close>

lemma count_finish: "count (finish n c j) = count j + 1"
  by (simp add: finish_def Let_def)

lemma error_finish: "error (finish n c j) = (case error j of Some e \<Rightarrow> Some e | None \<Rightarrow> c)"
  by (simp add: finish_def Let_def)

lemma callback_finish:
  "callback (finish n c j) =
     (if count j + 1 = n then callback j @ [case error j of Some e \<Rightarrow> Some e | None \<Rightarrow> c]
      else callback j)"
  by (simp add: finish_def Let_def)

lemma first_error_snoc:
  "first_error (cs @ [c]) = (case first_error cs of Some e \<Rightarrow> Some e | None \<Rightarrow> c)"
proof (induction cs rule: first_error.induct)
  case 1
  show ?case by (cases c) simp_all
qed simp_all

lemma fetchChildren_facts:
  "count (foldl (\<lambda>j err. finish n err j) \<lparr>count = 0, error = None, callback = []\<rparr> cs)
     = length cs \<and>
   error (foldl (\<lambda>j err. finish n err j) \<lparr>count = 0, error = None, callback = []\<rparr> cs)
     = first_error cs \<and>
   (length cs < n \<longrightarrow>
      callback (foldl (\<lambda>j err. finish n err j) \<lparr>count = 0, error = None, callback = []\<rparr> cs)
        = []) \<and>
   (length cs = n \<longrightarrow> n \<noteq> 0 \<longrightarrow>
      callback (foldl (\<lambda>j err. finish n err j) \<lparr>count = 0, error = None, callback = []\<rparr> cs)
        = [first_error cs])"
proof (induction cs rule: rev_induct)
  case Nil
  show ?case by simp
next
  case (snoc c cs)
  then show ?case
    by (simp add: count_finish error_finish callback_finish first_error_snoc)
qed

lemma count_loaded: "count (loaded n r j) = count j + 1"
  by (cases r) (simp_all add: loaded_def Let_def)

lemma error_loaded:
  "error (loaded n r j) = (case error j of Some e \<Rightarrow> Some e | None \<Rightarrow> load_error r)"
  by (cases r) (simp_all add: loaded_def Let_def split: option.splits)

lemma callback_loaded:
  "callback (loaded n r j) =
     (if count j + 1 = n
      then callback j @ [case error j of Some e \<Rightarrow> Some e | None \<Rightarrow> load_error r]
      else callback j)"
  by (cases r) (simp_all add: loaded_def Let_def split: option.splits)

lemma collection_fetch_facts:
  "count (foldl (\<lambda>j r. loaded n r j)
            \<lparr>count = 0, error = None, callback = [], items = i0\<rparr> rs) = length rs \<and>
   error (foldl (\<lambda>j r. loaded n r j)
            \<lparr>count = 0, error = None, callback = [], items = i0\<rparr> rs)
     = first_error (map load_error rs) \<and>
   (length rs < n \<longrightarrow>
      callback (foldl (\<lambda>j r. loaded n r j)
                  \<lparr>count = 0, error = None, callback = [], items = i0\<rparr> rs) = []) \<and>
   (length rs = n \<longrightarrow> n \<noteq> 0 \<longrightarrow>
      callback (foldl (\<lambda>j r. loaded n r j)
                  \<lparr>count = 0, error = None, callback = [], items = i0\<rparr> rs)
        = [first_error (map load_error rs)])"
proof (induction rs rule: rev_induct)
  case Nil
  show ?case by simp
next
  case (snoc r rs)
  then show ?case
    by (simp add: count_loaded error_loaded callback_loaded first_error_snoc)
qed

text \<open>
  C8. A fetch cascade over \<open>n \<ge> 1\<close> children, each of which completes once (\<open>done\<close>, and
  \<open>loads\<close> for the items of a collection, list the completions in the order in which
  they happen): when all \<open>n\<close> have completed the callback has been called exactly once,
  with the first error among the completions (null when all succeeded); after any
  \<open>k < n\<close> completions, failed or not, it has not been called.
\<close>

theorem join_fires_once:
  assumes "1 \<le> n" and "length done = n" and "length loads = n"
  shows "callback (fetchChildren n done) = [first_error done] \<and>
         (\<forall>k<n. callback (fetchChildren n (take k done)) = []) \<and>
         callback (collection_fetch n i0 loads) = [first_error (map load_error loads)] \<and>
         (\<forall>k<n. callback (collection_fetch n i0 (take k loads)) = [])"
proof -
  have a: "callback (fetchChildren n done) = [first_error done]"
    using assms fetchChildren_facts[of n "done"] by (simp add: fetchChildren_def)
  have b: "callback (fetchChildren n (take k done)) = []" if "k < n" for k
    using that assms fetchChildren_facts[of n "take k done"] by (simp add: fetchChildren_def)
  have c: "callback (collection_fetch n i0 loads) = [first_error (map load_error loads)]"
    using assms collection_fetch_facts[of n i0 loads] by (simp add: collection_fetch_def)
  have d: "callback (collection_fetch n i0 (take k loads)) = []" if "k < n" for k
    using that assms collection_fetch_facts[of n i0 "take k loads"]
    by (simp add: collection_fetch_def)
  from a b c d show ?thesis by blast
qed

text \<open>
  Three children; the second to complete fails, the third fails with another error.
\<close>

theorem join_fires_once_witness:
  "(1::nat) \<le> 3 \<and>
   length [None, Some (Failure ''second''), Some (Failure ''third'')] = 3 \<and>
   length [Inr (1::nat), Inl (Failure ''second''), Inl (Failure ''third'')] = 3 \<and>
   callback (fetchChildren 3 [None, Some (Failure ''second''), Some (Failure ''third'')])
     = [Some (Failure ''second'')] \<and>
   callback (fetchChildren 3 (take 2 [None, Some (Failure ''second''), Some (Failure ''third'')]))
     = [] \<and>
   callback (collection_fetch 3 []
               [Inr (1::nat), Inl (Failure ''second''), Inl (Failure ''third'')])
     = [Some (Failure ''second'')]"
proof -
  have n: "(1::nat) \<le> 3" by simp
  have l1: "length [None, Some (Failure ''second''), Some (Failure ''third'')] = 3" by simp
  have l2: "length [Inr (1::nat), Inl (Failure ''second''), Inl (Failure ''third'')] = 3" by simp
  note t = join_fires_once[OF n l1 l2, of "[]"]
  from t have k: "callback (fetchChildren 3
      (take 2 [None, Some (Failure ''second''), Some (Failure ''third'')])) = []"
    by (elim conjE allE[of _ 2]) simp
  from t k show ?thesis by simp
qed

section \<open>The isSavable property\<close>

text \<open>
  C9. For every instance of the editable root model, whatever its state, its rules and
  its environment, reading \<^verbatim>\<open>isSavable\<close> does not return a boolean: the getter throws a
  TypeError at \<^verbatim>\<open>self.isDeleted()\<close>, the call of the boolean that the getter of
  \<^verbatim>\<open>isDeleted\<close> yields, and leaves the instance as it was.
\<close>

theorem isSavable_always_throws:
  "isSavable run E m = (Thrown (TypeError ''is not a function''), m)"
  by (simp add: isSavable_def isSavable_action_def js_call_def)

section \<open>Broken rules of the read-only root collection\<close>

lemma property_is_undeclared:
  "resolve identifiers_in_scope ''property'' = Some (ReferenceError ''property'')"
  by (simp add: resolve_def identifiers_in_scope_def)

lemma merge_items_throws:
  "list_ex (\<lambda>i. i \<noteq> None) its \<Longrightarrow>
   merge_items addChild nameOf its bro = Inl (ReferenceError ''property'')"
  by (induction addChild nameOf its bro rule: merge_items.induct)
     (auto simp: property_is_undeclared)

text \<open>
  C10. In \<^verbatim>\<open>getBrokenRules\<close> of the read-only root collection no enclosing scope declares
  the identifier \<^verbatim>\<open>property\<close>; so when at least one item reports broken rules, the merge
  step cannot name the item: the call throws a ReferenceError instead of returning the
  merged output.
\<close>

theorem getBrokenRules_undeclared_property:
  "list_ex (\<lambda>i. i \<noteq> None) its \<Longrightarrow>
   ''property'' \<notin> set identifiers_in_scope \<and>
   getBrokenRules addChild nameOf len output its = Thrown (ReferenceError ''property'')"
  by (simp add: getBrokenRules_def merge_items_throws) (simp add: identifiers_in_scope_def)

text \<open>
  Two items, the second of which reports broken rules (outputs are counted here by
  their number of entries).
\<close>

theorem getBrokenRules_undeclared_property_witness:
  "list_ex (\<lambda>i. i \<noteq> None) [None, Some (1::nat)] \<and>
   getBrokenRules (\<lambda>n c b. b + c) (\<lambda>x. x) (\<lambda>b. b) 0 [None, Some (1::nat)]
     = Thrown (ReferenceError ''property'')"
  using getBrokenRules_undeclared_property
          [of "[None, Some (1::nat)]" "\<lambda>n c b. b + c" "\<lambda>x. x" "\<lambda>b. b" 0]
  by simp

end
